theory Spec2Isabelle
  imports Main "HOL-Library.Sublist"
begin

section \<open>Job postings: the endpoints of app/api/endpoints/jobs.py\<close>

text \<open>
  The module is a set of HTTP handlers over an ORM session. Each handler is embedded as a
  function from its arguments and the session to a result and the session afterwards.
  A raised \<^verbatim>\<open>HTTPException(status_code, detail)\<close> is the error value \<open>HTTPException\<close>;
  an exception that no handler code catches leaves the handler as \<open>Unhandled\<close> with its
  message.
\<close>

subsection \<open>Entities and request bodies\<close>

text \<open>
  Modelled from the spec: models/models.py and schemas/schemas.py are not part of the
  sources, so the entities and request bodies carry the fields the spec's data model names.
  A column or attribute that Python can hold as \<^verbatim>\<open>None\<close> is an \<open>option\<close>. The company
  relation of a posting is resolved through \<open>jp_company_id\<close>.
\<close>

record company =
  co_id :: int
  co_name :: string
  co_industry :: string

record job_posting =
  jp_id :: int
  jp_title :: "string option"
  jp_description :: "string option"
  jp_company_id :: "int option"

text \<open>\<^verbatim>\<open>JobPostingCreate\<close>: every field of a new posting; the title and the company are required.\<close>

record job_posting_create =
  jc_title :: string
  jc_description :: "string option"
  jc_company_id :: int

text \<open>
  \<^verbatim>\<open>JobPostingUpdate\<close>: every field optional. A field is \<open>None\<close> when the body did not set
  it, \<open>Some None\<close> when the body set it to null, and \<open>Some (Some v)\<close> when the body gave
  the value \<open>v\<close>. Reading an unset field in Python gives its default, \<^verbatim>\<open>None\<close>.
\<close>

record job_posting_update =
  ju_title :: "string option option"
  ju_description :: "string option option"
  ju_company_id :: "int option option"

datatype error = HTTPException nat string | Unhandled string

subsection \<open>The session\<close>

text \<open>
  The session holds the two tables in the persistence layer's row order. What a commit
  does is the database's: \<open>commit_error\<close> is the exception \<^verbatim>\<open>db.commit()\<close> raises in
  this request (a violated constraint, a lost connection), or \<open>None\<close> when it succeeds.
  A commit that raises writes nothing.
\<close>

record session =
  companies :: "company list"
  jobs :: "job_posting list"
  commit_error :: "string option"

text \<open>\<^verbatim>\<open>db.query(Company).filter(Company.id == cid).first()\<close>\<close>

definition query_company :: "session \<Rightarrow> int \<Rightarrow> company option" where
  "query_company db cid = List.find (\<lambda>c. co_id c = cid) (companies db)"

text \<open>\<^verbatim>\<open>db.query(JobPostingModel).filter(JobPostingModel.id == job_id).first()\<close>\<close>

definition query_job :: "session \<Rightarrow> int \<Rightarrow> job_posting option" where
  "query_job db job_id = List.find (\<lambda>j. jp_id j = job_id) (jobs db)"

text \<open>
  The primary key the persistence layer gives a new row: one more than the largest key in
  the table, 1 in an empty table.
\<close>

definition new_id :: "job_posting list \<Rightarrow> int" where
  "new_id rows = fold max (map jp_id rows) 0 + 1"

text \<open>
  What a commit writes for a changed posting is \<^verbatim>\<open>UPDATE ... WHERE id = job_id\<close>, and for a
  deleted one \<^verbatim>\<open>DELETE ... WHERE id = job_id\<close>: the row is addressed by its primary key.
\<close>

definition update_rows :: "int \<Rightarrow> (job_posting \<Rightarrow> job_posting) \<Rightarrow> job_posting list \<Rightarrow> job_posting list" where
  "update_rows job_id f rows = map (\<lambda>j. if jp_id j = job_id then f j else j) rows"

definition delete_rows :: "int \<Rightarrow> job_posting list \<Rightarrow> job_posting list" where
  "delete_rows job_id rows = filter (\<lambda>j. jp_id j \<noteq> job_id) rows"

subsection \<open>Create, list, get\<close>

definition create_job_posting ::
  "job_posting_create \<Rightarrow> session \<Rightarrow> (error + job_posting) \<times> session" where
  "create_job_posting job db =
     (case query_company db (jc_company_id job) of
        None \<Rightarrow> (Inl (HTTPException 404 ''Company not found''), db)
      | Some company \<Rightarrow>
          (case commit_error db of
             Some msg \<Rightarrow> (Inl (Unhandled msg), db)
           | None \<Rightarrow>
               let db_job = \<lparr>jp_id = new_id (jobs db),
                             jp_title = Some (jc_title job),
                             jp_description = jc_description job,
                             jp_company_id = Some (jc_company_id job)\<rparr>
               in (Inr db_job, db\<lparr>jobs := jobs db @ [db_job]\<rparr>)))"

text \<open>
  \<^verbatim>\<open>.offset(skip)\<close> and \<^verbatim>\<open>.limit(limit)\<close>. The handler passes both integers to the query as
  they come, negative ones too, and what a negative one does is the database's. The model
  follows SQLite: a negative offset skips nothing and a negative limit is no limit.
\<close>

definition offset_rows :: "int \<Rightarrow> 'a list \<Rightarrow> 'a list" where
  "offset_rows n rows = drop (nat n) rows"

definition limit_rows :: "int \<Rightarrow> 'a list \<Rightarrow> 'a list" where
  "limit_rows n rows = (if n < 0 then rows else take (nat n) rows)"

text \<open>
  \<^verbatim>\<open>def read_job_postings(skip: int = 0, limit: int = 100, ...)\<close>: a query parameter the
  request leaves out is \<open>None\<close> and takes its default.
\<close>

definition read_job_postings :: "int option \<Rightarrow> int option \<Rightarrow> session \<Rightarrow> job_posting list" where
  "read_job_postings skip limit db =
     limit_rows (case limit of None \<Rightarrow> 100 | Some n \<Rightarrow> n)
       (offset_rows (case skip of None \<Rightarrow> 0 | Some n \<Rightarrow> n) (jobs db))"

definition read_job_posting :: "int \<Rightarrow> session \<Rightarrow> error + job_posting" where
  "read_job_posting job_id db =
     (case query_job db job_id of
        None \<Rightarrow> Inl (HTTPException 404 ''Job posting not found'')
      | Some db_job \<Rightarrow> Inr db_job)"

subsection \<open>Update and delete\<close>

text \<open>
  \<^verbatim>\<open>job.model_dump(exclude_unset=True)\<close> is the dictionary of the fields the body set, in
  the order of the schema; a value is a string or an integer, or \<^verbatim>\<open>None\<close>.
\<close>

datatype field_value = StrValue "string option" | IntValue "int option"

definition model_dump_exclude_unset :: "job_posting_update \<Rightarrow> (string \<times> field_value) list" where
  "model_dump_exclude_unset job =
     (case ju_title job of None \<Rightarrow> [] | Some v \<Rightarrow> [(''title'', StrValue v)]) @
     (case ju_description job of None \<Rightarrow> [] | Some v \<Rightarrow> [(''description'', StrValue v)]) @
     (case ju_company_id job of None \<Rightarrow> [] | Some v \<Rightarrow> [(''company_id'', IntValue v)])"

fun setattr :: "job_posting \<Rightarrow> string \<times> field_value \<Rightarrow> job_posting" where
  "setattr db_job (field, StrValue v) =
     (if field = ''title'' then db_job\<lparr>jp_title := v\<rparr>
      else if field = ''description'' then db_job\<lparr>jp_description := v\<rparr>
      else db_job)"
| "setattr db_job (field, IntValue v) =
     (if field = ''company_id'' then db_job\<lparr>jp_company_id := v\<rparr> else db_job)"

definition update_job_posting ::
  "int \<Rightarrow> job_posting_update \<Rightarrow> session \<Rightarrow> (error + job_posting) \<times> session" where
  "update_job_posting job_id job db =
     (case query_job db job_id of
        None \<Rightarrow> (Inl (HTTPException 404 ''Job posting not found''), db)
      | Some db_job \<Rightarrow>
          if (case ju_company_id job of
                Some (Some cid) \<Rightarrow> query_company db cid = None
              | _ \<Rightarrow> False)
          then (Inl (HTTPException 404 ''Company not found''), db)
          else
            let update_data = model_dump_exclude_unset job in
            (case commit_error db of
               Some msg \<Rightarrow> (Inl (Unhandled msg), db)
             | None \<Rightarrow>
                 (Inr (foldl setattr db_job update_data),
                  db\<lparr>jobs := update_rows job_id (\<lambda>j. foldl setattr j update_data) (jobs db)\<rparr>)))"

definition delete_job_posting :: "int \<Rightarrow> session \<Rightarrow> (error + string) \<times> session" where
  "delete_job_posting job_id db =
     (case query_job db job_id of
        None \<Rightarrow> (Inl (HTTPException 404 ''Job posting not found''), db)
      | Some db_job \<Rightarrow>
          (case commit_error db of
             Some msg \<Rightarrow> (Inl (Unhandled msg), db)
           | None \<Rightarrow>
               (Inr ''Job posting deleted successfully'',
                db\<lparr>jobs := delete_rows job_id (jobs db)\<rparr>)))"

section \<open>Description generation\<close>

subsection \<open>JSON values and the decoder\<close>

text \<open>
  The values \<^verbatim>\<open>json.loads\<close> returns. An object keeps its members in the order of the
  text; a number keeps its lexeme.
\<close>

datatype json =
    JNull
  | JBool bool
  | JNumber string
  | JString string
  | JArray "json list"
  | JObject "(string \<times> json) list"

datatype token =
    LBrace | RBrace | LBracket | RBracket | Colon | Comma
  | StringTok string
  | WordTok string

datatype lex_mode =
    Between
  | InWord string
  | InString string
  | InEscape string
  | InUnicode string nat nat

definition is_digit :: "char \<Rightarrow> bool" where
  "is_digit c = (c \<in> set ''0123456789'')"

definition is_word_char :: "char \<Rightarrow> bool" where
  "is_word_char c =
     (c \<in> set ''0123456789+-.abcdefghijklmnopqrstuvwxyzABCDEFGHIJKLMNOPQRSTUVWXYZ'')"

definition is_whitespace :: "char \<Rightarrow> bool" where
  "is_whitespace c = (c \<in> {CHR '' '', CHR 0x09, CHR 0x0A, CHR 0x0D})"

definition punctuation :: "char \<Rightarrow> token option" where
  "punctuation c =
     (if c = CHR ''{'' then Some LBrace else if c = CHR ''}'' then Some RBrace
      else if c = CHR ''['' then Some LBracket else if c = CHR '']'' then Some RBracket
      else if c = CHR '':'' then Some Colon else if c = CHR '','' then Some Comma
      else None)"

definition escape :: "char \<Rightarrow> char option" where
  "escape c =
     (if c = CHR 0x22 then Some (CHR 0x22) else if c = CHR 0x5C then Some (CHR 0x5C)
      else if c = CHR ''/'' then Some (CHR ''/'') else if c = CHR ''b'' then Some (CHR 0x08)
      else if c = CHR ''f'' then Some (CHR 0x0C) else if c = CHR ''n'' then Some (CHR 0x0A)
      else if c = CHR ''r'' then Some (CHR 0x0D) else if c = CHR ''t'' then Some (CHR 0x09)
      else None)"

definition hex_digit :: "char \<Rightarrow> nat option" where
  "hex_digit c =
     (let n = (of_char c :: nat) in
      if 48 \<le> n \<and> n \<le> 57 then Some (n - 48)
      else if 65 \<le> n \<and> n \<le> 70 then Some (n - 55)
      else if 97 \<le> n \<and> n \<le> 102 then Some (n - 87)
      else None)"

text \<open>The first character of a token, read between tokens.\<close>

definition start_token :: "char \<Rightarrow> (lex_mode \<times> token list) option" where
  "start_token c =
     (if is_whitespace c then Some (Between, [])
      else if c = CHR 0x22 then Some (InString [], [])
      else (case punctuation c of
              Some t \<Rightarrow> Some (Between, [t])
            | None \<Rightarrow> if is_word_char c then Some (InWord [c], []) else None))"

text \<open>
  The scanner, one character at a time; the text of a string or word and the tokens are
  accumulated in reverse. A string may hold no raw control character. The strings of the
  model are ASCII text: an escape \<^verbatim>\<open>\uXXXX\<close> is decoded below 128 and refused above.
\<close>

fun lex :: "lex_mode \<Rightarrow> token list \<Rightarrow> string \<Rightarrow> token list option" where
  "lex Between acc [] = Some (rev acc)"
| "lex (InWord w) acc [] = Some (rev (WordTok (rev w) # acc))"
| "lex (InString s) acc [] = None"
| "lex (InEscape s) acc [] = None"
| "lex (InUnicode s k n) acc [] = None"
| "lex Between acc (c # cs) =
     (case start_token c of None \<Rightarrow> None | Some (m, ts) \<Rightarrow> lex m (ts @ acc) cs)"
| "lex (InWord w) acc (c # cs) =
     (if is_word_char c then lex (InWord (c # w)) acc cs
      else (case start_token c of
              None \<Rightarrow> None
            | Some (m, ts) \<Rightarrow> lex m (ts @ WordTok (rev w) # acc) cs))"
| "lex (InString s) acc (c # cs) =
     (if c = CHR 0x22 then lex Between (StringTok (rev s) # acc) cs
      else if c = CHR 0x5C then lex (InEscape s) acc cs
      else if (of_char c :: nat) < 32 then None
      else lex (InString (c # s)) acc cs)"
| "lex (InEscape s) acc (c # cs) =
     (case escape c of
        Some e \<Rightarrow> lex (InString (e # s)) acc cs
      | None \<Rightarrow> if c = CHR ''u'' then lex (InUnicode s 0 0) acc cs else None)"
| "lex (InUnicode s k n) acc (c # cs) =
     (case hex_digit c of
        None \<Rightarrow> None
      | Some d \<Rightarrow>
          if k < 3 then lex (InUnicode s (Suc k) (16 * n + d)) acc cs
          else if 16 * n + d < 128 then lex (InString (char_of (16 * n + d) # s)) acc cs
          else None)"

text \<open>
  A word is a literal or a number:
  \<^verbatim>\<open>-?(0|[1-9][0-9]*)(\.[0-9]+)?([eE][-+]?[0-9]+)?\<close>.
\<close>

definition exponent_ok :: "string \<Rightarrow> bool" where
  "exponent_ok r =
     (case r of
        [] \<Rightarrow> True
      | e # r' \<Rightarrow>
          (e = CHR ''e'' \<or> e = CHR ''E'') \<and>
          (let ds = (case r' of
                       [] \<Rightarrow> []
                     | x # t \<Rightarrow> if x = CHR ''+'' \<or> x = CHR ''-'' then t else r')
           in ds \<noteq> [] \<and> list_all is_digit ds))"

definition fraction_ok :: "string \<Rightarrow> bool" where
  "fraction_ok r =
     (case r of
        [] \<Rightarrow> True
      | p # r' \<Rightarrow>
          if p = CHR ''.'' then takeWhile is_digit r' \<noteq> [] \<and> exponent_ok (dropWhile is_digit r')
          else exponent_ok r)"

definition number_ok :: "string \<Rightarrow> bool" where
  "number_ok w =
     (let u = (case w of [] \<Rightarrow> [] | x # t \<Rightarrow> if x = CHR ''-'' then t else w);
          ds = takeWhile is_digit u
      in ds \<noteq> [] \<and> (length ds = 1 \<or> hd ds \<noteq> CHR ''0'') \<and> fraction_ok (dropWhile is_digit u))"

definition word_value :: "string \<Rightarrow> json option" where
  "word_value w =
     (if w = ''true'' then Some (JBool True)
      else if w = ''false'' then Some (JBool False)
      else if w = ''null'' then Some JNull
      else if w = ''NaN'' \<or> w = ''Infinity'' \<or> w = ''-Infinity'' then Some (JNumber w)
      else if number_ok w then Some (JNumber w)
      else None)"

text \<open>The parser: the containers that are open, innermost first, and what may come next.\<close>

datatype frame = ArrayFrame "json list" | ObjectFrame "(string \<times> json) list" string

datatype expect =
    ExpValue | ExpValueOrEnd | ExpKeyOrEnd | ExpKey | ExpColon | ExpCommaOrEnd
  | Finished json

fun deliver :: "json \<Rightarrow> frame list \<Rightarrow> expect \<times> frame list" where
  "deliver v [] = (Finished v, [])"
| "deliver v (ArrayFrame xs # st) = (ExpCommaOrEnd, ArrayFrame (v # xs) # st)"
| "deliver v (ObjectFrame kvs k # st) = (ExpCommaOrEnd, ObjectFrame ((k, v) # kvs) k # st)"

definition begin_value :: "frame list \<Rightarrow> token \<Rightarrow> (expect \<times> frame list) option" where
  "begin_value st tk =
     (case tk of
        LBrace \<Rightarrow> Some (ExpKeyOrEnd, ObjectFrame [] [] # st)
      | LBracket \<Rightarrow> Some (ExpValueOrEnd, ArrayFrame [] # st)
      | StringTok s \<Rightarrow> Some (deliver (JString s) st)
      | WordTok w \<Rightarrow> map_option (\<lambda>v. deliver v st) (word_value w)
      | _ \<Rightarrow> None)"

definition end_array :: "frame list \<Rightarrow> (expect \<times> frame list) option" where
  "end_array st =
     (case st of ArrayFrame xs # st' \<Rightarrow> Some (deliver (JArray (rev xs)) st') | _ \<Rightarrow> None)"

definition end_object :: "frame list \<Rightarrow> (expect \<times> frame list) option" where
  "end_object st =
     (case st of ObjectFrame kvs k # st' \<Rightarrow> Some (deliver (JObject (rev kvs)) st') | _ \<Rightarrow> None)"

definition set_key :: "string \<Rightarrow> frame list \<Rightarrow> (expect \<times> frame list) option" where
  "set_key k st =
     (case st of ObjectFrame kvs k' # st' \<Rightarrow> Some (ExpColon, ObjectFrame kvs k # st') | _ \<Rightarrow> None)"

fun parse_step :: "expect \<Rightarrow> frame list \<Rightarrow> token \<Rightarrow> (expect \<times> frame list) option" where
  "parse_step ExpValue st tk = begin_value st tk"
| "parse_step ExpValueOrEnd st tk = (if tk = RBracket then end_array st else begin_value st tk)"
| "parse_step ExpKeyOrEnd st tk =
     (case tk of RBrace \<Rightarrow> end_object st | StringTok k \<Rightarrow> set_key k st | _ \<Rightarrow> None)"
| "parse_step ExpKey st tk = (case tk of StringTok k \<Rightarrow> set_key k st | _ \<Rightarrow> None)"
| "parse_step ExpColon st tk = (if tk = Colon then Some (ExpValue, st) else None)"
| "parse_step ExpCommaOrEnd st tk =
     (case tk of
        Comma \<Rightarrow>
          (case st of
             ArrayFrame xs # st' \<Rightarrow> Some (ExpValue, st)
           | ObjectFrame kvs k # st' \<Rightarrow> Some (ExpKey, st)
           | [] \<Rightarrow> None)
      | RBracket \<Rightarrow> end_array st
      | RBrace \<Rightarrow> end_object st
      | _ \<Rightarrow> None)"
| "parse_step (Finished v) st tk = None"

fun parse :: "expect \<Rightarrow> frame list \<Rightarrow> token list \<Rightarrow> json option" where
  "parse (Finished v) [] [] = Some v"
| "parse e st [] = None"
| "parse e st (tk # tks) =
     (case parse_step e st tk of None \<Rightarrow> None | Some (e', st') \<Rightarrow> parse e' st' tks)"

text \<open>
  \<^verbatim>\<open>json.loads\<close>: the value, or the message of the \<^verbatim>\<open>JSONDecodeError\<close>. Python words
  the message by the place where decoding stopped; the model gives every decoding failure
  the one text below.
\<close>

definition json_loads :: "string \<Rightarrow> string + json" where
  "json_loads s =
     (case lex Between [] s of
        None \<Rightarrow> Inl ''Expecting value''
      | Some tks \<Rightarrow>
          (case parse ExpValue [] tks of
             None \<Rightarrow> Inl ''Expecting value''
           | Some v \<Rightarrow> Inr v))"

text \<open>
  \<^verbatim>\<open>description_data.get("description", "")\<close>. A dictionary built from the text keeps
  the last value given to a key; a decoded value that is not a dictionary has no
  \<^verbatim>\<open>get\<close>, and Python raises \<^verbatim>\<open>AttributeError\<close> naming its type.
\<close>

definition type_name :: "json \<Rightarrow> string" where
  "type_name v =
     (case v of
        JNull \<Rightarrow> ''NoneType''
      | JBool b \<Rightarrow> ''bool''
      | JNumber w \<Rightarrow> if list_all (\<lambda>c. is_digit c \<or> c = CHR ''-'') w then ''int'' else ''float''
      | JString s \<Rightarrow> ''str''
      | JArray xs \<Rightarrow> ''list''
      | JObject kvs \<Rightarrow> ''dict'')"

definition dict_get :: "json \<Rightarrow> string \<Rightarrow> json \<Rightarrow> string + json" where
  "dict_get d k dflt =
     (case d of
        JObject kvs \<Rightarrow> (case map_of (rev kvs) k of None \<Rightarrow> Inr dflt | Some v \<Rightarrow> Inr v)
      | _ \<Rightarrow> Inl ([CHR 0x27] @ type_name d @ [CHR 0x27] @ '' object has no attribute 'get'' @ [CHR 0x27]))"

subsection \<open>The external API\<close>

text \<open>
  A chunk of the streamed completion, as far as the handler reads it:
  \<^verbatim>\<open>chunk.choices[0].delta.function_call.arguments\<close>.
\<close>

record choice_delta_function_call =
  arguments :: "string option"

record choice_delta =
  function_call :: "choice_delta_function_call option"

record choice =
  delta :: choice_delta

record chat_completion_chunk =
  choices :: "choice list"

text \<open>
  Iterating the response gives the next chunk or raises (a connection lost in the middle
  of the stream); the stream is the finite list of what the iteration gives.
\<close>

datatype stream_event = Chunk chat_completion_chunk | Raise string

text \<open>
  The arguments of \<^verbatim>\<open>openai_client.chat.completions.create\<close>: the model, the messages
  (role and content), the function schemas, the name of the function to call, and the
  streaming flag.
\<close>

record chat_request =
  req_model :: string
  req_messages :: "(string \<times> string) list"
  req_functions :: "json list"
  req_function_call :: string
  req_stream :: bool

text \<open>
  What the handler's surroundings decide: \<open>create_completion\<close> is the call of the external
  API, which raises or gives a stream; \<open>bind_param\<close> is what the database driver does with a
  Python value that is neither a string nor \<^verbatim>\<open>None\<close> when it is written to the text column
  (it raises, or stores a text or NULL); \<open>utcnow\<close> is the clock.
\<close>

record env =
  create_completion :: "chat_request \<Rightarrow> string + stream_event list"
  bind_param :: "json \<Rightarrow> string + string option"
  utcnow :: nat

text \<open>
  Modelled from the spec: schemas/schemas.py is not part of the sources. The request holds
  the list of required tools; the response holds the job id, the description text and the
  time of generation.
\<close>

record job_description_request =
  required_tools :: "string list"

record job_description_response =
  resp_job_id :: int
  resp_description :: string
  resp_generated_at :: nat

subsection \<open>The handler\<close>

text \<open>\<^verbatim>\<open>", ".join(request.required_tools)\<close>\<close>

fun join :: "string \<Rightarrow> string list \<Rightarrow> string" where
  "join sep [] = []"
| "join sep [x] = x"
| "join sep (x # y # ys) = x @ sep @ join sep (y # ys)"

text \<open>How an f-string prints an attribute that may be \<^verbatim>\<open>None\<close>.\<close>

definition format_str :: "string option \<Rightarrow> string" where
  "format_str v = (case v of None \<Rightarrow> ''None'' | Some s \<Rightarrow> s)"

text \<open>The prompt; the source has no full stop between "industry" and "The role".\<close>

definition prompt :: "job_posting \<Rightarrow> company \<Rightarrow> string \<Rightarrow> string" where
  "prompt job company tools =
     ''Generate a professional job description for the position '' @ [CHR 0x27]
       @ format_str (jp_title job) @ [CHR 0x27] @ '' at '' @ co_name company @ '', ''
     @ ''a company in the '' @ co_industry company @ '' industry''
     @ ''The role requires expertise in the following tools: '' @ tools @ ''. ''
     @ ''Structure the response as a single paragraph.''"

definition generate_functions :: "json list" where
  "generate_functions =
     [JObject
        [(''name'', JString ''generate_job_description''),
         (''description'', JString ''Generate a job description based on provided details.''),
         (''parameters'',
            JObject
              [(''type'', JString ''object''),
               (''properties'',
                  JObject
                    [(''description'',
                        JObject [(''type'', JString ''string''),
                                 (''description'', JString ''The generated job description.'')])]),
               (''required'', JArray [JString ''description''])])]]"

definition completion_request :: "string \<Rightarrow> chat_request" where
  "completion_request p =
     \<lparr>req_model = ''gpt-4o-mini'',
      req_messages =
        [(''system'',
          ''You are a professional HR assistant specializing in writing job descriptions.''),
         (''user'', p)],
      req_functions = generate_functions,
      req_function_call = ''generate_job_description'',
      req_stream = True\<rparr>"

text \<open>
  The loop over the stream, with \<open>full_description\<close> as its accumulator.
  \<^verbatim>\<open>chunk.choices[0]\<close> raises \<^verbatim>\<open>IndexError\<close> on a chunk without choices; a fragment is
  appended when the function call and its arguments are there and the arguments are not
  empty.
\<close>

fun collect :: "string \<Rightarrow> stream_event list \<Rightarrow> string + string" where
  "collect full_description [] = Inr full_description"
| "collect full_description (Raise msg # response) = Inl msg"
| "collect full_description (Chunk chunk # response) =
     (case choices chunk of
        [] \<Rightarrow> Inl ''list index out of range''
      | c # cs \<Rightarrow>
          (case function_call (delta c) of
             None \<Rightarrow> collect full_description response
           | Some fc \<Rightarrow>
               (case arguments fc of
                  None \<Rightarrow> collect full_description response
                | Some args_chunk \<Rightarrow>
                    if args_chunk = [] then collect full_description response
                    else collect (full_description @ args_chunk) response)))"

text \<open>
  The part of the \<^verbatim>\<open>try\<close> block before the posting is touched: the call, the loop, the
  decoding and the extraction of the description.
\<close>

definition generated_description :: "env \<Rightarrow> chat_request \<Rightarrow> string + json" where
  "generated_description e req =
     (case create_completion e req of
        Inl msg \<Rightarrow> Inl msg
      | Inr response \<Rightarrow>
          (case collect [] response of
             Inl msg \<Rightarrow> Inl msg
           | Inr full_description \<Rightarrow>
               (case json_loads full_description of
                  Inl msg \<Rightarrow> Inl msg
                | Inr description_data \<Rightarrow>
                    dict_get description_data ''description'' (JString []))))"

text \<open>
  \<^verbatim>\<open>job.description = description; db.commit()\<close>: a string is stored as it is and
  \<^verbatim>\<open>None\<close> as NULL; the commit may raise, and then nothing is written.
\<close>

definition save_description :: "env \<Rightarrow> job_posting \<Rightarrow> json \<Rightarrow> session \<Rightarrow> string + session" where
  "save_description e job v db =
     (case (case v of JString s \<Rightarrow> Inr (Some s) | JNull \<Rightarrow> Inr None | _ \<Rightarrow> bind_param e v) of
        Inl msg \<Rightarrow> Inl msg
      | Inr x \<Rightarrow>
          (case commit_error db of
             Some msg \<Rightarrow> Inl msg
           | None \<Rightarrow>
               Inr (db\<lparr>jobs := update_rows (jp_id job) (\<lambda>j. j\<lparr>jp_description := x\<rparr>) (jobs db)\<rparr>)))"

text \<open>
  \<^verbatim>\<open>JobDescriptionResponse(job_id=job.id, description=description, generated_at=...)\<close>:
  the schema validates the description as a string and raises on any other value.
\<close>

definition prepare_response :: "env \<Rightarrow> job_posting \<Rightarrow> json \<Rightarrow> string + job_description_response" where
  "prepare_response e job v =
     (case v of
        JString s \<Rightarrow> Inr \<lparr>resp_job_id = jp_id job, resp_description = s, resp_generated_at = utcnow e\<rparr>
      | _ \<Rightarrow> Inl ''Input should be a valid string'')"

text \<open>The body of the \<^verbatim>\<open>try\<close> block: its result or the message of the exception it raised.\<close>

definition try_generate ::
  "env \<Rightarrow> job_posting \<Rightarrow> chat_request \<Rightarrow> session \<Rightarrow> (string + job_description_response) \<times> session" where
  "try_generate e job req db =
     (case generated_description e req of
        Inl msg \<Rightarrow> (Inl msg, db)
      | Inr v \<Rightarrow>
          (case save_description e job v db of
             Inl msg \<Rightarrow> (Inl msg, db)
           | Inr db' \<Rightarrow> (prepare_response e job v, db')))"

text \<open>
  The relation \<^verbatim>\<open>job.company\<close>: the company the posting's \<open>company_id\<close> names, if any.
\<close>

definition job_company :: "session \<Rightarrow> job_posting \<Rightarrow> company option" where
  "job_company db job =
     (case jp_company_id job of None \<Rightarrow> None | Some cid \<Rightarrow> query_company db cid)"

text \<open>
  The handler returns its result, the session afterwards and the requests it sent to the
  external API, in order. The line it writes to the log in the \<^verbatim>\<open>except\<close> branch is
  left out.
\<close>

definition generate_job_description ::
  "env \<Rightarrow> int \<Rightarrow> job_description_request \<Rightarrow> session
     \<Rightarrow> (error + job_description_response) \<times> session \<times> chat_request list" where
  "generate_job_description e id' request db =
     (case query_job db id' of
        None \<Rightarrow> (Inl (HTTPException 404 ''Job posting not found''), db, [])
      | Some job \<Rightarrow>
          (case job_company db job of
             None \<Rightarrow> (Inl (HTTPException 404 ''Associated company not found''), db, [])
           | Some company \<Rightarrow>
               let tools = join '', '' (required_tools request);
                   req = completion_request (prompt job company tools)
               in (case try_generate e job req db of
                     (Inl msg, db') \<Rightarrow>
                       (Inl (HTTPException 500 (''Failed to generate job description: '' @ msg)),
                        db', [req])
                   | (Inr r, db') \<Rightarrow> (Inr r, db', [req]))))"

section \<open>Scenarios\<close>

text \<open>
  The store of the spec's scenarios: the company Acme and the posting Driver, on a session
  whose commit succeeds.
\<close>

definition acme :: company where
  "acme = \<lparr>co_id = 1, co_name = ''Acme'', co_industry = ''Logistics''\<rparr>"

definition driver :: job_posting where
  "driver = \<lparr>jp_id = 10, jp_title = Some ''Driver'', jp_description = None,
             jp_company_id = Some 1\<rparr>"

definition demo_db :: session where
  "demo_db = \<lparr>companies = [acme], jobs = [driver], commit_error = None\<rparr>"

definition clerk :: "int \<Rightarrow> job_posting_create" where
  "clerk cid = \<lparr>jc_title = ''Clerk'', jc_description = None, jc_company_id = cid\<rparr>"

definition posting :: "int \<Rightarrow> job_posting" where
  "posting n = \<lparr>jp_id = n, jp_title = Some ''Driver'', jp_description = None,
                jp_company_id = Some 1\<rparr>"

definition five_db :: session where
  "five_db = \<lparr>companies = [acme], jobs = map posting [1, 2, 3, 4, 5], commit_error = None\<rparr>"

definition retitle :: "string \<Rightarrow> job_posting_update" where
  "retitle t = \<lparr>ju_title = Some (Some t), ju_description = None, ju_company_id = None\<rparr>"

text \<open>The fragment of the arguments payload that a chunk carries, empty when it carries none.\<close>

definition chunk_arguments :: "chat_completion_chunk \<Rightarrow> string" where
  "chunk_arguments chunk =
     (case choices chunk of
        [] \<Rightarrow> []
      | c # cs \<Rightarrow>
          (case function_call (delta c) of
             None \<Rightarrow> []
           | Some fc \<Rightarrow> (case arguments fc of None \<Rightarrow> [] | Some a \<Rightarrow> a)))"

text \<open>
  The generation scenarios: a chunk that carries a fragment, a first chunk that carries
  none, the request for the tools forklift and GPS, and the surroundings in which the API
  streams a given list of events.
\<close>

definition fragment :: "string \<Rightarrow> chat_completion_chunk" where
  "fragment s = \<lparr>choices = [\<lparr>delta = \<lparr>function_call = Some \<lparr>arguments = Some s\<rparr>\<rparr>\<rparr>]\<rparr>"

definition role_chunk :: chat_completion_chunk where
  "role_chunk = \<lparr>choices = [\<lparr>delta = \<lparr>function_call = None\<rparr>\<rparr>]\<rparr>"

definition tools_request :: job_description_request where
  "tools_request = \<lparr>required_tools = [''forklift'', ''GPS'']\<rparr>"

definition streaming :: "stream_event list \<Rightarrow> env" where
  "streaming events =
     \<lparr>create_completion = (\<lambda>req. Inr events),
      bind_param = (\<lambda>v. Inl ''type is not supported''),
      utcnow = 1700000000\<rparr>"

definition failing :: "string \<Rightarrow> env" where
  "failing msg =
     \<lparr>create_completion = (\<lambda>req. Inl msg),
      bind_param = (\<lambda>v. Inl ''type is not supported''),
      utcnow = 1700000000\<rparr>"

definition driver_prompt :: string where
  "driver_prompt =
     ''Generate a professional job description for the position 'Driver' at Acme, ''
     @ ''a company in the Logistics industry''
     @ ''The role requires expertise in the following tools: forklift, GPS. ''
     @ ''Structure the response as a single paragraph.''"

definition driver_chunks :: "chat_completion_chunk list" where
  "driver_chunks =
     [role_chunk, fragment ''{\"descr'', fragment ''iption\": \"Drives '',
      fragment ''and navigates.\"}'']"

section \<open>Properties of the CRUD endpoints\<close>

subsection \<open>Keys and rows\<close>

lemma fold_max_ge: "(a::int) \<le> fold max xs a"
  by (induction xs arbitrary: a) (auto intro: order_trans [OF max.cobounded2])

lemma fold_max_mem: "(x::int) \<in> set xs \<Longrightarrow> x \<le> fold max xs a"
proof (induction xs arbitrary: a)
  case Nil
  then show ?case by simp
next
  case (Cons y ys)
  show ?case
  proof (cases "x = y")
    case True
    have "y \<le> max y a" by simp
    also have "\<dots> \<le> fold max ys (max y a)" by (rule fold_max_ge)
    finally show ?thesis using True by simp
  next
    case False
    with Cons.prems have "x \<in> set ys" by simp
    then show ?thesis using Cons.IH by simp
  qed
qed

lemma new_id_fresh: "j \<in> set rows \<Longrightarrow> jp_id j < new_id rows"
  using fold_max_mem [of "jp_id j" "map jp_id rows" 0] by (simp add: new_id_def)

lemma find_append_fresh:
  "k \<notin> jp_id ` set rows \<Longrightarrow> jp_id j = k \<Longrightarrow> List.find (\<lambda>j. jp_id j = k) (rows @ [j]) = Some j"
  by (induction rows) auto

lemma find_update_rows:
  assumes "\<And>x. jp_id (f x) = jp_id x"
  shows "List.find (\<lambda>x. jp_id x = k) (update_rows k f rows)
           = map_option f (List.find (\<lambda>x. jp_id x = k) rows)"
  by (induction rows) (simp_all add: update_rows_def assms)

lemma foldl_setattr_model_dump:
  "foldl setattr j (model_dump_exclude_unset job)
     = j\<lparr>jp_title := (case ju_title job of None \<Rightarrow> jp_title j | Some v \<Rightarrow> v),
         jp_description := (case ju_description job of None \<Rightarrow> jp_description j | Some v \<Rightarrow> v),
         jp_company_id := (case ju_company_id job of None \<Rightarrow> jp_company_id j | Some v \<Rightarrow> v)\<rparr>"
  by (cases "ju_title job"; cases "ju_description job"; cases "ju_company_id job")
     (simp_all add: model_dump_exclude_unset_def)

subsection \<open>Create\<close>

text \<open>
  C5. When the request's \<open>company_id\<close> is the id of a company in the store (and the commit
  raises nothing), create succeeds: it returns a posting whose title, description and
  company are the request's, under an id that no posting of the store had; the store
  afterwards is the old one with this posting appended, and get-by-id on the new id returns
  it.
\<close>

theorem create_job_posting_succeeds:
  assumes "c \<in> set (companies db)" and "co_id c = jc_company_id job"
    and "commit_error db = None"
  shows "\<exists>j. create_job_posting job db = (Inr j, db\<lparr>jobs := jobs db @ [j]\<rparr>)
           \<and> jp_title j = Some (jc_title job)
           \<and> jp_description j = jc_description job
           \<and> jp_company_id j = Some (jc_company_id job)
           \<and> jp_id j \<notin> jp_id ` set (jobs db)
           \<and> read_job_posting (jp_id j) (db\<lparr>jobs := jobs db @ [j]\<rparr>) = Inr j"
proof -
  define j where "j = \<lparr>jp_id = new_id (jobs db), jp_title = Some (jc_title job),
    jp_description = jc_description job, jp_company_id = Some (jc_company_id job)\<rparr>"
  from assms(1,2) have "query_company db (jc_company_id job) \<noteq> None"
    by (auto simp: query_company_def find_None_iff)
  then obtain c' where c': "query_company db (jc_company_id job) = Some c'" by auto
  have run: "create_job_posting job db = (Inr j, db\<lparr>jobs := jobs db @ [j]\<rparr>)"
    by (simp add: create_job_posting_def c' assms(3) j_def Let_def)
  have fresh: "jp_id j \<notin> jp_id ` set (jobs db)"
  proof
    assume "jp_id j \<in> jp_id ` set (jobs db)"
    then obtain x where "x \<in> set (jobs db)" and "jp_id x = jp_id j" by auto
    with new_id_fresh [of x "jobs db"] show False by (simp add: j_def)
  qed
  have "read_job_posting (jp_id j) (db\<lparr>jobs := jobs db @ [j]\<rparr>) = Inr j"
    using find_append_fresh [OF fresh refl]
    by (simp add: read_job_posting_def query_job_def)
  with run fresh show ?thesis by (intro exI [of _ j]) (simp add: j_def)
qed

theorem create_job_posting_succeeds_witness:
  "acme \<in> set (companies demo_db) \<and> co_id acme = jc_company_id (clerk 1)
   \<and> commit_error demo_db = None
   \<and> (\<exists>j. create_job_posting (clerk 1) demo_db = (Inr j, demo_db\<lparr>jobs := [driver, j]\<rparr>)
         \<and> jp_title j = Some ''Clerk'' \<and> jp_company_id j = Some 1 \<and> jp_id j \<noteq> 10)"
proof -
  have h: "acme \<in> set (companies demo_db)" "co_id acme = jc_company_id (clerk 1)"
    "commit_error demo_db = None"
    by (simp_all add: demo_db_def acme_def clerk_def)
  from create_job_posting_succeeds [OF h] obtain j where
    "create_job_posting (clerk 1) demo_db = (Inr j, demo_db\<lparr>jobs := jobs demo_db @ [j]\<rparr>)"
    "jp_title j = Some (jc_title (clerk 1))" "jp_company_id j = Some (jc_company_id (clerk 1))"
    "jp_id j \<notin> jp_id ` set (jobs demo_db)"
    by blast
  then have "create_job_posting (clerk 1) demo_db = (Inr j, demo_db\<lparr>jobs := [driver, j]\<rparr>)
      \<and> jp_title j = Some ''Clerk'' \<and> jp_company_id j = Some 1 \<and> jp_id j \<noteq> 10"
    by (simp add: demo_db_def clerk_def driver_def)
  with h show ?thesis by blast
qed

text \<open>
  C6. When no company of the store has the request's \<open>company_id\<close>, create fails with the
  404 "Company not found" and the session is returned as it was: no row is added.
\<close>

theorem create_job_posting_unknown_company:
  assumes "jc_company_id job \<notin> co_id ` set (companies db)"
  shows "create_job_posting job db = (Inl (HTTPException 404 ''Company not found''), db)"
proof -
  from assms have "query_company db (jc_company_id job) = None"
    by (force simp: query_company_def find_None_iff)
  then show ?thesis by (simp add: create_job_posting_def)
qed

theorem create_job_posting_unknown_company_witness:
  "jc_company_id (clerk 2) \<notin> co_id ` set (companies demo_db)
   \<and> create_job_posting (clerk 2) demo_db
       = (Inl (HTTPException 404 ''Company not found''), demo_db)"
proof -
  have h: "jc_company_id (clerk 2) \<notin> co_id ` set (companies demo_db)"
    by (simp add: demo_db_def acme_def clerk_def)
  from create_job_posting_unknown_company [OF h] h show ?thesis by simp
qed

subsection \<open>List\<close>

text \<open>
  C8, as stated, fails for a negative limit: on the store of 5 postings \<open>limit = -1\<close>
  returns all 5 rows, which is more than \<open>limit\<close> rows.
\<close>

theorem read_job_postings_negative_limit:
  "read_job_postings (Some 0) (Some (- 1)) five_db = jobs five_db
   \<and> \<not> int (length (read_job_postings (Some 0) (Some (- 1)) five_db)) \<le> - 1"
  by (simp add: read_job_postings_def limit_rows_def offset_rows_def five_db_def)

text \<open>
  C8, amended. For a \<open>skip\<close> and a \<open>limit\<close> that are not negative (0 and 100 when the
  parameter is left out), the list operation skips the first \<open>skip\<close> rows and returns at
  most \<open>limit\<close> rows in the order of the store: the result has \<open>min limit (length - skip)\<close>
  rows and its \<open>i\<close>-th row is row \<open>skip + i\<close> of the store. On a store of 5 postings the
  defaults, and \<open>skip = 0\<close> with \<open>limit = 100\<close>, return all 5 in order, and \<open>skip = 5\<close>
  returns the empty list.
\<close>

theorem read_job_postings_page:
  assumes "0 \<le> (case skip of None \<Rightarrow> 0 | Some n \<Rightarrow> n)"
    and "0 \<le> (case limit of None \<Rightarrow> 100 | Some n \<Rightarrow> n)"
  shows "length (read_job_postings skip limit db)
     = min (nat (case limit of None \<Rightarrow> 100 | Some n \<Rightarrow> n))
           (length (jobs db) - nat (case skip of None \<Rightarrow> 0 | Some n \<Rightarrow> n))
   \<and> int (length (read_job_postings skip limit db)) \<le> (case limit of None \<Rightarrow> 100 | Some n \<Rightarrow> n)
   \<and> (\<forall>i < length (read_job_postings skip limit db).
        read_job_postings skip limit db ! i
          = jobs db ! (nat (case skip of None \<Rightarrow> 0 | Some n \<Rightarrow> n) + i))
   \<and> (length (jobs db) = 5 \<longrightarrow>
        read_job_postings None None db = jobs db
        \<and> read_job_postings (Some 0) (Some 100) db = jobs db
        \<and> read_job_postings (Some 5) limit db = [])"
proof -
  let ?s = "case skip of None \<Rightarrow> 0 | Some n \<Rightarrow> n"
  let ?l = "case limit of None \<Rightarrow> 100 | Some n \<Rightarrow> n"
  have page: "read_job_postings skip limit db = take (nat ?l) (drop (nat ?s) (jobs db))"
    using assms(2) by (simp add: read_job_postings_def limit_rows_def offset_rows_def)
  have len: "length (read_job_postings skip limit db) = min (nat ?l) (length (jobs db) - nat ?s)"
    by (simp add: page min.commute)
  have bound: "int (length (read_job_postings skip limit db)) \<le> ?l"
    using assms(2) by (simp add: len)
  have rows: "\<forall>i < length (read_job_postings skip limit db).
      read_job_postings skip limit db ! i = jobs db ! (nat ?s + i)"
    by (auto simp: page)
  have five: "read_job_postings None None db = jobs db
      \<and> read_job_postings (Some 0) (Some 100) db = jobs db
      \<and> read_job_postings (Some 5) limit db = []"
    if "length (jobs db) = 5"
    using that by (simp add: read_job_postings_def limit_rows_def offset_rows_def)
  from len bound rows five show ?thesis by blast
qed

theorem read_job_postings_page_witness:
  "(0::int) \<le> 1 \<and> (0::int) \<le> 2 \<and> length (jobs five_db) = 5
   \<and> read_job_postings (Some 1) (Some 2) five_db = [posting 2, posting 3]
   \<and> read_job_postings (Some 0) (Some 100) five_db = jobs five_db
   \<and> read_job_postings None None five_db = jobs five_db
   \<and> read_job_postings (Some 5) (Some 2) five_db = []"
proof -
  have five: "length (jobs five_db) = 5"
    by (simp add: five_db_def)
  have h: "0 \<le> (case Some (1::int) of None \<Rightarrow> 0 | Some n \<Rightarrow> n)"
    "0 \<le> (case Some (2::int) of None \<Rightarrow> 100 | Some n \<Rightarrow> n)"
    by simp_all
  have page: "read_job_postings (Some 1) (Some 2) five_db = [posting 2, posting 3]"
    by (simp add: read_job_postings_def limit_rows_def offset_rows_def five_db_def)
  from read_job_postings_page [OF h, of five_db] five page
  show ?thesis by simp
qed

subsection \<open>Delete\<close>

text \<open>
  C9. For the id of a posting in the store (and a commit that raises nothing), delete
  returns its confirmation message, and get-by-id on the same id in the session delete
  leaves behind fails with the 404 "Job posting not found".
\<close>

theorem delete_then_get:
  assumes "job_id \<in> jp_id ` set (jobs db)" and "commit_error db = None"
  shows "fst (delete_job_posting job_id db) = Inr ''Job posting deleted successfully''
         \<and> read_job_posting job_id (snd (delete_job_posting job_id db))
             = Inl (HTTPException 404 ''Job posting not found'')"
proof -
  from assms(1) have "query_job db job_id \<noteq> None"
    by (auto simp: query_job_def find_None_iff)
  then obtain j where j: "query_job db job_id = Some j" by auto
  have del: "delete_job_posting job_id db
      = (Inr ''Job posting deleted successfully'', db\<lparr>jobs := delete_rows job_id (jobs db)\<rparr>)"
    by (simp add: delete_job_posting_def j assms(2))
  have "query_job (db\<lparr>jobs := delete_rows job_id (jobs db)\<rparr>) job_id = None"
    by (auto simp: query_job_def delete_rows_def find_None_iff)
  then show ?thesis by (simp add: del read_job_posting_def)
qed

theorem delete_then_get_witness:
  "10 \<in> jp_id ` set (jobs demo_db) \<and> commit_error demo_db = None
   \<and> read_job_posting 10 demo_db = Inr driver
   \<and> fst (delete_job_posting 10 demo_db) = Inr ''Job posting deleted successfully''
   \<and> read_job_posting 10 (snd (delete_job_posting 10 demo_db))
       = Inl (HTTPException 404 ''Job posting not found'')"
proof -
  have h: "10 \<in> jp_id ` set (jobs demo_db)" "commit_error demo_db = None"
    by (simp_all add: demo_db_def driver_def)
  have "read_job_posting 10 demo_db = Inr driver"
    by (simp add: read_job_posting_def query_job_def demo_db_def driver_def)
  with delete_then_get [OF h] h show ?thesis by simp
qed

subsection \<open>Update\<close>

text \<open>
  C4. For a posting of the store and any partial body that passes the company check, on a
  session whose commit raises nothing, update succeeds, and the posting it returns (which
  get-by-id then returns too) has, field by field, the body's value where the body set the
  field and the prior value where it did not; the id is never changed. An empty body
  returns the posting and the session as they were, and a body that sets only the title
  changes the title and keeps description and company.
\<close>

theorem update_applies_set_fields:
  assumes "query_job db job_id = Some j"
    and "\<forall>cid. ju_company_id job = Some (Some cid) \<longrightarrow> cid \<in> co_id ` set (companies db)"
    and "commit_error db = None"
  shows "\<exists>j' db'. update_job_posting job_id job db = (Inr j', db')
       \<and> jp_id j' = jp_id j
       \<and> jp_title j' = (case ju_title job of None \<Rightarrow> jp_title j | Some v \<Rightarrow> v)
       \<and> jp_description j' = (case ju_description job of None \<Rightarrow> jp_description j | Some v \<Rightarrow> v)
       \<and> jp_company_id j' = (case ju_company_id job of None \<Rightarrow> jp_company_id j | Some v \<Rightarrow> v)
       \<and> read_job_posting job_id db' = Inr j'
       \<and> (ju_title job = None \<and> ju_description job = None \<and> ju_company_id job = None
            \<longrightarrow> j' = j \<and> db' = db)
       \<and> (ju_description job = None \<and> ju_company_id job = None
            \<longrightarrow> jp_description j' = jp_description j \<and> jp_company_id j' = jp_company_id j)"
proof -
  let ?f = "\<lambda>x. foldl setattr x (model_dump_exclude_unset job)"
  let ?j' = "?f j" and ?db' = "db\<lparr>jobs := update_rows job_id ?f (jobs db)\<rparr>"
  have check: "\<not> (case ju_company_id job of
                     Some (Some cid) \<Rightarrow> query_company db cid = None | _ \<Rightarrow> False)"
    using assms(2) by (force simp: query_company_def find_None_iff split: option.splits)
  have run: "update_job_posting job_id job db = (Inr ?j', ?db')"
    using check by (simp add: update_job_posting_def assms(1,3) Let_def)
  have id: "jp_id (?f x) = jp_id x" for x
    by (simp add: foldl_setattr_model_dump)
  have "query_job ?db' job_id = Some ?j'"
    using assms(1) find_update_rows [of ?f job_id "jobs db"] id
    by (simp add: query_job_def)
  then have get: "read_job_posting job_id ?db' = Inr ?j'"
    by (simp add: read_job_posting_def)
  have noop: "?j' = j \<and> ?db' = db"
    if "ju_title job = None \<and> ju_description job = None \<and> ju_company_id job = None"
    using that by (simp add: update_rows_def model_dump_exclude_unset_def)
  have fields: "jp_id ?j' = jp_id j
       \<and> jp_title ?j' = (case ju_title job of None \<Rightarrow> jp_title j | Some v \<Rightarrow> v)
       \<and> jp_description ?j' = (case ju_description job of None \<Rightarrow> jp_description j | Some v \<Rightarrow> v)
       \<and> jp_company_id ?j' = (case ju_company_id job of None \<Rightarrow> jp_company_id j | Some v \<Rightarrow> v)"
    by (simp add: foldl_setattr_model_dump)
  have only: "jp_description ?j' = jp_description j \<and> jp_company_id ?j' = jp_company_id j"
    if "ju_description job = None \<and> ju_company_id job = None"
    using that by (simp add: foldl_setattr_model_dump)
  show ?thesis
    using run get noop fields only by blast
qed

theorem update_applies_set_fields_witness:
  "query_job demo_db 10 = Some driver
   \<and> commit_error demo_db = None
   \<and> (\<exists>j' db'. update_job_posting 10 (retitle ''Courier'') demo_db = (Inr j', db')
         \<and> j' = driver\<lparr>jp_title := Some ''Courier''\<rparr>
         \<and> read_job_posting 10 db' = Inr j')"
proof -
  have h: "query_job demo_db 10 = Some driver"
    "\<forall>cid. ju_company_id (retitle ''Courier'') = Some (Some cid)
        \<longrightarrow> cid \<in> co_id ` set (companies demo_db)"
    "commit_error demo_db = None"
    by (simp_all add: query_job_def demo_db_def driver_def retitle_def)
  from update_applies_set_fields [OF h] obtain j' db' where
    r: "update_job_posting 10 (retitle ''Courier'') demo_db = (Inr j', db')"
      "jp_id j' = jp_id driver"
      "jp_title j' = (case ju_title (retitle ''Courier'') of None \<Rightarrow> jp_title driver | Some v \<Rightarrow> v)"
      "jp_description j' = (case ju_description (retitle ''Courier'') of None \<Rightarrow> jp_description driver | Some v \<Rightarrow> v)"
      "jp_company_id j' = (case ju_company_id (retitle ''Courier'') of None \<Rightarrow> jp_company_id driver | Some v \<Rightarrow> v)"
      "read_job_posting 10 db' = Inr j'"
    by blast
  from r(2-5) have "j' = driver\<lparr>jp_title := Some ''Courier''\<rparr>"
    by (cases j') (simp add: retitle_def driver_def)
  with r(1,6) h(1,3) show ?thesis by blast
qed

text \<open>
  C3. The body \<^verbatim>\<open>{"company_id": null}\<close> on the posting Driver: \<open>job.company_id\<close> is
  \<^verbatim>\<open>None\<close>, so the company check is skipped, while the dumped body still holds the field
  and \<open>setattr\<close> writes it. The update succeeds and returns, and stores, a posting whose
  company is NULL; no 404 is raised. On a session whose commit raises (the column may be
  declared NOT NULL) the failure is the unhandled database error, again not the 404.
\<close>

theorem update_null_company_id:
  "update_job_posting 10 \<lparr>ju_title = None, ju_description = None, ju_company_id = Some None\<rparr> demo_db
     = (Inr (driver\<lparr>jp_company_id := None\<rparr>),
        demo_db\<lparr>jobs := [driver\<lparr>jp_company_id := None\<rparr>]\<rparr>)
   \<and> fst (update_job_posting 10 \<lparr>ju_title = None, ju_description = None, ju_company_id = Some None\<rparr>
            (demo_db\<lparr>commit_error := Some ''NOT NULL constraint failed''\<rparr>))
     = Inl (Unhandled ''NOT NULL constraint failed'')"
  by (simp add: update_job_posting_def query_job_def demo_db_def driver_def
      model_dump_exclude_unset_def update_rows_def)

section \<open>Properties of description generation\<close>

subsection \<open>The stages of the handler\<close>

lemma query_job_id: "query_job db k = Some job \<Longrightarrow> jp_id job = k"
  by (auto simp: query_job_def find_Some_iff)

lemma collect_chunks:
  "\<forall>c \<in> set chunks. choices c \<noteq> [] \<Longrightarrow>
     collect acc (map Chunk chunks) = Inr (acc @ concat (map chunk_arguments chunks))"
  by (induction chunks arbitrary: acc)
     (auto simp: chunk_arguments_def split: list.splits option.splits)

lemma prompt_contains:
  "sublist (format_str (jp_title job)) (prompt job co tools)
   \<and> sublist (co_name co) (prompt job co tools)
   \<and> sublist (co_industry co) (prompt job co tools)
   \<and> sublist tools (prompt job co tools)"
proof -
  let ?a = "''Generate a professional job description for the position '' @ [CHR 0x27]"
  let ?b = "[CHR 0x27] @ '' at ''"
  let ?c = "'', a company in the ''"
  let ?d = "'' industryThe role requires expertise in the following tools: ''"
  let ?e = "''. Structure the response as a single paragraph.''"
  let ?t = "format_str (jp_title job)"
  have p: "prompt job co tools = ?a @ ?t @ ?b @ co_name co @ ?c @ co_industry co @ ?d @ tools @ ?e"
    by (simp add: prompt_def)
  have "sublist ?t (?a @ ?t @ (?b @ co_name co @ ?c @ co_industry co @ ?d @ tools @ ?e))"
    by (rule sublist_appendI)
  moreover have "sublist (co_name co)
      ((?a @ ?t @ ?b) @ co_name co @ (?c @ co_industry co @ ?d @ tools @ ?e))"
    by (rule sublist_appendI)
  moreover have "sublist (co_industry co)
      ((?a @ ?t @ ?b @ co_name co @ ?c) @ co_industry co @ (?d @ tools @ ?e))"
    by (rule sublist_appendI)
  moreover have "sublist tools
      ((?a @ ?t @ ?b @ co_name co @ ?c @ co_industry co @ ?d) @ tools @ ?e)"
    by (rule sublist_appendI)
  ultimately show ?thesis
    unfolding p by simp
qed

lemma save_description_string:
  "commit_error db = None \<Longrightarrow>
     save_description e job (JString d) db
       = Inr (db\<lparr>jobs := update_rows (jp_id job) (\<lambda>j. j\<lparr>jp_description := Some d\<rparr>) (jobs db)\<rparr>)"
  by (simp add: save_description_def)

lemma read_after_save:
  assumes "query_job db k = Some job"
  shows "read_job_posting k (db\<lparr>jobs := update_rows k (\<lambda>j. j\<lparr>jp_description := x\<rparr>) (jobs db)\<rparr>)
           = Inr (job\<lparr>jp_description := x\<rparr>)"
  using assms find_update_rows [of "\<lambda>j. j\<lparr>jp_description := x\<rparr>" k "jobs db"]
  by (simp add: read_job_posting_def query_job_def)

text \<open>
  A run in which every stage succeeds and the extracted description is the string \<open>d\<close>.
\<close>

lemma generate_success:
  assumes job: "query_job db k = Some job" and co: "job_company db job = Some co"
    and req: "req = completion_request (prompt job co (join '', '' (required_tools request)))"
    and api: "create_completion e req = Inr response"
    and buf: "collect [] response = Inr buf"
    and loads: "json_loads buf = Inr data"
    and get: "dict_get data ''description'' (JString []) = Inr (JString d)"
    and commit: "commit_error db = None"
  shows "generate_job_description e k request db
           = (Inr \<lparr>resp_job_id = k, resp_description = d, resp_generated_at = utcnow e\<rparr>,
              db\<lparr>jobs := update_rows k (\<lambda>j. j\<lparr>jp_description := Some d\<rparr>) (jobs db)\<rparr>,
              [req])"
proof -
  have k: "jp_id job = k" using job by (rule query_job_id)
  have "generated_description e req = Inr (JString d)"
    by (simp add: generated_description_def api buf loads get)
  then have "try_generate e job req db
      = (Inr \<lparr>resp_job_id = k, resp_description = d, resp_generated_at = utcnow e\<rparr>,
         db\<lparr>jobs := update_rows k (\<lambda>j. j\<lparr>jp_description := Some d\<rparr>) (jobs db)\<rparr>)"
    by (simp add: try_generate_def save_description_string [OF commit] prepare_response_def k)
  then show ?thesis
    by (simp add: generate_job_description_def job co req [symmetric] Let_def)
qed

text \<open>A run in which a stage before the end of the commit raises \<open>msg\<close>.\<close>

lemma generate_failure:
  assumes job: "query_job db k = Some job" and co: "job_company db job = Some co"
    and req: "req = completion_request (prompt job co (join '', '' (required_tools request)))"
    and fails: "generated_description e req = Inl msg
                \<or> (\<exists>v. generated_description e req = Inr v \<and> save_description e job v db = Inl msg)"
  shows "generate_job_description e k request db
           = (Inl (HTTPException 500 (''Failed to generate job description: '' @ msg)), db, [req])"
proof -
  from fails have "try_generate e job req db = (Inl msg, db)"
    by (auto simp: try_generate_def)
  then show ?thesis
    by (simp add: generate_job_description_def job co req [symmetric] Let_def)
qed

lemma generate_error_shape:
  assumes job: "query_job db k = Some job" and co: "job_company db job = Some co"
    and res: "generate_job_description e k request db = (Inl err, db', calls)"
  shows "\<exists>msg. err = HTTPException 500 (''Failed to generate job description: '' @ msg)"
  using res
  by (auto simp: generate_job_description_def job co Let_def split: prod.splits sum.splits)

subsection \<open>Success\<close>

text \<open>
  C1. For a posting of the store with a title and a resolvable company, when the API
  streams chunks (each with a choice), the fragments concatenated in arrival order decode
  to an object whose description is the string \<open>d\<close>, and the commit raises nothing:
  exactly one request is sent, whose user message is a prompt that contains the title,
  the company's name, its industry and the tools joined by ", "; the buffer the loop
  builds is the concatenation of the chunks' fragments in the order of the stream; the
  result is the response with the posting's id and the description \<open>d\<close>; and get-by-id on
  the session afterwards returns the posting with \<open>d\<close> as its description.
\<close>

theorem generate_persists_description:
  assumes "query_job db k = Some job" and "jp_title job = Some title"
    and "job_company db job = Some co"
    and "create_completion e
           (completion_request (prompt job co (join '', '' (required_tools request))))
         = Inr (map Chunk chunks)"
    and "\<forall>c \<in> set chunks. choices c \<noteq> []"
    and "json_loads (concat (map chunk_arguments chunks)) = Inr (JObject kvs)"
    and "map_of (rev kvs) ''description'' = Some (JString d)"
    and "commit_error db = None"
  shows "\<exists>p db'. generate_job_description e k request db
             = (Inr \<lparr>resp_job_id = k, resp_description = d, resp_generated_at = utcnow e\<rparr>,
                db', [completion_request p])
         \<and> collect [] (map Chunk chunks) = Inr (concat (map chunk_arguments chunks))
         \<and> sublist title p \<and> sublist (co_name co) p \<and> sublist (co_industry co) p
         \<and> sublist (join '', '' (required_tools request)) p
         \<and> read_job_posting k db' = Inr (job\<lparr>jp_description := Some d\<rparr>)"
proof -
  let ?p = "prompt job co (join '', '' (required_tools request))"
  let ?db' = "db\<lparr>jobs := update_rows k (\<lambda>j. j\<lparr>jp_description := Some d\<rparr>) (jobs db)\<rparr>"
  have buf: "collect [] (map Chunk chunks) = Inr (concat (map chunk_arguments chunks))"
    using collect_chunks [OF assms(5), of "[]"] by simp
  have get: "dict_get (JObject kvs) ''description'' (JString []) = Inr (JString d)"
    by (simp add: dict_get_def assms(7))
  have run: "generate_job_description e k request db
      = (Inr \<lparr>resp_job_id = k, resp_description = d, resp_generated_at = utcnow e\<rparr>,
         ?db', [completion_request ?p])"
    by (rule generate_success [OF assms(1,3) refl assms(4) buf assms(6) get assms(8)])
  have "sublist title ?p"
    using prompt_contains [of job co "join '', '' (required_tools request)"]
    by (simp add: format_str_def assms(2))
  moreover have "read_job_posting k ?db' = Inr (job\<lparr>jp_description := Some d\<rparr>)"
    by (rule read_after_save [OF assms(1)])
  ultimately show ?thesis
    using run buf prompt_contains [of job co "join '', '' (required_tools request)"] by blast
qed

lemma driver_buffer:
  "concat (map chunk_arguments driver_chunks) = ''{\"description\": \"Drives and navigates.\"}''"
  by (simp add: driver_chunks_def chunk_arguments_def fragment_def role_chunk_def)

lemmas decoder_defs =
  json_loads_def start_token_def is_whitespace_def punctuation_def is_word_char_def
  escape_def begin_value_def end_object_def end_array_def set_key_def word_value_def

lemma driver_decoded:
  "json_loads ''{\"description\": \"Drives and navigates.\"}''
     = Inr (JObject [(''description'', JString ''Drives and navigates.'')])"
  by (simp add: decoder_defs)

lemma driver_prompt_eq:
  "prompt driver acme (join '', '' (required_tools tools_request)) = driver_prompt"
  by (simp add: prompt_def driver_def acme_def tools_request_def driver_prompt_def format_str_def)

theorem generate_persists_description_witness:
  "query_job demo_db 10 = Some driver \<and> job_company demo_db driver = Some acme
   \<and> commit_error demo_db = None
   \<and> concat (map chunk_arguments driver_chunks) = ''{\"description\": \"Drives and navigates.\"}''
   \<and> generate_job_description (streaming (map Chunk driver_chunks)) 10 tools_request demo_db
       = (Inr \<lparr>resp_job_id = 10, resp_description = ''Drives and navigates.'',
               resp_generated_at = 1700000000\<rparr>,
          demo_db\<lparr>jobs := [driver\<lparr>jp_description := Some ''Drives and navigates.''\<rparr>]\<rparr>,
          [completion_request driver_prompt])
   \<and> sublist ''Driver'' driver_prompt \<and> sublist ''Acme'' driver_prompt
   \<and> sublist ''Logistics'' driver_prompt \<and> sublist ''forklift, GPS'' driver_prompt"
proof -
  let ?e = "streaming (map Chunk driver_chunks)"
  have h1: "query_job demo_db 10 = Some driver"
    by (simp add: query_job_def demo_db_def driver_def)
  have h2: "jp_title driver = Some ''Driver''"
    by (simp add: driver_def)
  have h3: "job_company demo_db driver = Some acme"
    by (simp add: job_company_def query_company_def demo_db_def driver_def acme_def)
  have h4: "create_completion ?e
      (completion_request (prompt driver acme (join '', '' (required_tools tools_request))))
      = Inr (map Chunk driver_chunks)"
    by (simp add: streaming_def)
  have h5: "\<forall>c \<in> set driver_chunks. choices c \<noteq> []"
    by (simp add: driver_chunks_def fragment_def role_chunk_def)
  have h6: "json_loads (concat (map chunk_arguments driver_chunks))
      = Inr (JObject [(''description'', JString ''Drives and navigates.'')])"
    by (simp only: driver_buffer driver_decoded)
  have h7: "map_of (rev [(''description'', JString ''Drives and navigates.'')]) ''description''
      = Some (JString ''Drives and navigates.'')"
    by simp
  have h8: "commit_error demo_db = None"
    by (simp add: demo_db_def)
  from generate_persists_description [OF h1 h2 h3 h4 h5 h6 h7 h8] obtain p db' where
    run: "generate_job_description ?e 10 tools_request demo_db
        = (Inr \<lparr>resp_job_id = 10, resp_description = ''Drives and navigates.'',
                resp_generated_at = utcnow ?e\<rparr>, db', [completion_request p])"
    and sub: "sublist ''Driver'' p" "sublist (co_name acme) p" "sublist (co_industry acme) p"
      "sublist (join '', '' (required_tools tools_request)) p"
    and get: "read_job_posting 10 db' = Inr (driver\<lparr>jp_description := Some ''Drives and navigates.''\<rparr>)"
    by blast
  have buf: "collect [] (map Chunk driver_chunks) = Inr (concat (map chunk_arguments driver_chunks))"
    using collect_chunks [OF h5, of "[]"] by simp
  have "generate_job_description ?e 10 tools_request demo_db
      = (Inr \<lparr>resp_job_id = 10, resp_description = ''Drives and navigates.'',
              resp_generated_at = utcnow ?e\<rparr>,
         demo_db\<lparr>jobs := update_rows 10 (\<lambda>j. j\<lparr>jp_description := Some ''Drives and navigates.''\<rparr>)
            (jobs demo_db)\<rparr>,
         [completion_request driver_prompt])"
    using generate_success [OF h1 h3 refl h4 buf h6 _ h8, of "''Drives and navigates.''"]
    by (simp add: dict_get_def driver_prompt_eq)
  with run have p: "p = driver_prompt"
    and db': "db' = demo_db\<lparr>jobs := update_rows 10
        (\<lambda>j. j\<lparr>jp_description := Some ''Drives and navigates.''\<rparr>) (jobs demo_db)\<rparr>"
    by (simp_all add: completion_request_def)
  have db'': "db' = demo_db\<lparr>jobs := [driver\<lparr>jp_description := Some ''Drives and navigates.''\<rparr>]\<rparr>"
    by (simp add: db' update_rows_def demo_db_def driver_def)
  have now: "utcnow ?e = 1700000000"
    by (simp add: streaming_def)
  from sub have "sublist ''Driver'' driver_prompt" "sublist ''Acme'' driver_prompt"
    "sublist ''Logistics'' driver_prompt" "sublist ''forklift, GPS'' driver_prompt"
    by (simp_all add: p acme_def tools_request_def)
  with run h1 h3 h8 driver_buffer show ?thesis
    by (simp add: p db'' now)
qed

subsection \<open>The missing key\<close>

text \<open>
  C10. For a posting of the store with a resolvable company, when the API call and the
  stream raise nothing, the accumulated buffer decodes to an object that has no key
  "description", and the commit raises nothing: the handler does not fail. It returns the
  response with the posting's id and the empty string as description, and get-by-id on
  the session afterwards returns the posting with the empty string as its description.
\<close>

theorem generate_missing_description_key:
  assumes "query_job db k = Some job" and "job_company db job = Some co"
    and "create_completion e
           (completion_request (prompt job co (join '', '' (required_tools request))))
         = Inr response"
    and "collect [] response = Inr buf"
    and "json_loads buf = Inr (JObject kvs)"
    and "''description'' \<notin> fst ` set kvs"
    and "commit_error db = None"
  shows "\<exists>db' calls. generate_job_description e k request db
             = (Inr \<lparr>resp_job_id = k, resp_description = [], resp_generated_at = utcnow e\<rparr>,
                db', calls)
         \<and> read_job_posting k db' = Inr (job\<lparr>jp_description := Some []\<rparr>)"
proof -
  from assms(6) have "map_of (rev kvs) ''description'' = None"
    by (simp add: map_of_eq_None_iff)
  then have get: "dict_get (JObject kvs) ''description'' (JString []) = Inr (JString [])"
    by (simp add: dict_get_def)
  have "read_job_posting k (db\<lparr>jobs := update_rows k (\<lambda>j. j\<lparr>jp_description := Some []\<rparr>) (jobs db)\<rparr>)
      = Inr (job\<lparr>jp_description := Some []\<rparr>)"
    by (rule read_after_save [OF assms(1)])
  with generate_success [OF assms(1,2) refl assms(3,4,5) get assms(7)]
  show ?thesis by blast
qed

theorem generate_missing_description_key_witness:
  "query_job demo_db 10 = Some driver \<and> job_company demo_db driver = Some acme
   \<and> collect [] [Chunk role_chunk, Chunk (fragment ''{\"text\": \"x\"}'')] = Inr ''{\"text\": \"x\"}''
   \<and> json_loads ''{\"text\": \"x\"}'' = Inr (JObject [(''text'', JString ''x'')])
   \<and> commit_error demo_db = None
   \<and> (\<exists>db' calls.
         generate_job_description
           (streaming [Chunk role_chunk, Chunk (fragment ''{\"text\": \"x\"}'')]) 10 tools_request demo_db
           = (Inr \<lparr>resp_job_id = 10, resp_description = [], resp_generated_at = 1700000000\<rparr>,
              db', calls)
         \<and> read_job_posting 10 db' = Inr (driver\<lparr>jp_description := Some []\<rparr>))"
proof -
  let ?events = "[Chunk role_chunk, Chunk (fragment ''{\"text\": \"x\"}'')]"
  have h1: "query_job demo_db 10 = Some driver"
    by (simp add: query_job_def demo_db_def driver_def)
  have h2: "job_company demo_db driver = Some acme"
    by (simp add: job_company_def query_company_def demo_db_def driver_def acme_def)
  have h3: "create_completion (streaming ?events)
      (completion_request (prompt driver acme (join '', '' (required_tools tools_request))))
      = Inr ?events"
    by (simp add: streaming_def)
  have h4: "collect [] ?events = Inr ''{\"text\": \"x\"}''"
    by (simp add: fragment_def role_chunk_def)
  have h5: "json_loads ''{\"text\": \"x\"}'' = Inr (JObject [(''text'', JString ''x'')])"
    by (simp add: decoder_defs)
  have h6: "''description'' \<notin> fst ` set [(''text'', JString ''x'')]"
    by simp
  have h7: "commit_error demo_db = None"
    by (simp add: demo_db_def)
  have now: "utcnow (streaming ?events) = 1700000000"
    by (simp add: streaming_def)
  from generate_missing_description_key [OF h1 h2 h3 h4 h5 h6 h7] h1 h2 h4 h5 h7
  show ?thesis
    unfolding now by blast
qed

subsection \<open>Failures\<close>

text \<open>
  C7. When no posting of the store has the requested id, the handler returns the 404
  "Job posting not found", the session as it was, and the empty list of requests: the
  external API is not called.
\<close>

theorem generate_unknown_job:
  assumes "k \<notin> jp_id ` set (jobs db)"
  shows "generate_job_description e k request db
           = (Inl (HTTPException 404 ''Job posting not found''), db, [])"
proof -
  from assms have "query_job db k = None"
    by (force simp: query_job_def find_None_iff)
  then show ?thesis by (simp add: generate_job_description_def)
qed

theorem generate_unknown_job_witness:
  "999 \<notin> jp_id ` set (jobs demo_db)
   \<and> generate_job_description (streaming (map Chunk driver_chunks)) 999 tools_request demo_db
       = (Inl (HTTPException 404 ''Job posting not found''), demo_db, [])"
proof -
  have h: "999 \<notin> jp_id ` set (jobs demo_db)"
    by (simp add: demo_db_def driver_def)
  from generate_unknown_job [OF h] h show ?thesis by simp
qed

text \<open>
  C2. For a posting of the store with a resolvable company, let \<open>req\<close> be the request the
  handler sends. Every error the handler returns is a single 500 whose detail is
  "Failed to generate job description: " followed by the message of the exception; the
  handler never lets an exception escape. When the exception is raised by the API call, by
  the iteration of the stream, by the decoding of the buffer, by the extraction of the
  description, or by the write and its commit, the message in the detail is that
  exception's, and the session is returned as it was, so the posting's description is what
  it was before the call. (Building the prompt raises nothing in this model.)
\<close>

theorem generate_failure_is_500:
  assumes "query_job db k = Some job" and "job_company db job = Some co"
    and "req = completion_request (prompt job co (join '', '' (required_tools request)))"
  shows "(\<forall>err db' calls. generate_job_description e k request db = (Inl err, db', calls) \<longrightarrow>
            (\<exists>msg. err = HTTPException 500 (''Failed to generate job description: '' @ msg)))
       \<and> (\<forall>msg.
            (create_completion e req = Inl msg
             \<or> (\<exists>response. create_completion e req = Inr response \<and>
                  (collect [] response = Inl msg
                   \<or> (\<exists>buf. collect [] response = Inr buf \<and>
                        (json_loads buf = Inl msg
                         \<or> (\<exists>data. json_loads buf = Inr data \<and>
                              (dict_get data ''description'' (JString []) = Inl msg
                               \<or> (\<exists>v. dict_get data ''description'' (JString []) = Inr v \<and>
                                    save_description e job v db = Inl msg))))))))
            \<longrightarrow> generate_job_description e k request db
                  = (Inl (HTTPException 500 (''Failed to generate job description: '' @ msg)),
                     db, [req])
                \<and> read_job_posting k db = Inr job)"
proof (intro conjI allI impI)
  fix err db' calls
  assume "generate_job_description e k request db = (Inl err, db', calls)"
  then show "\<exists>msg. err = HTTPException 500 (''Failed to generate job description: '' @ msg)"
    by (rule generate_error_shape [OF assms(1,2)])
next
  fix msg
  assume stages: "create_completion e req = Inl msg
             \<or> (\<exists>response. create_completion e req = Inr response \<and>
                  (collect [] response = Inl msg
                   \<or> (\<exists>buf. collect [] response = Inr buf \<and>
                        (json_loads buf = Inl msg
                         \<or> (\<exists>data. json_loads buf = Inr data \<and>
                              (dict_get data ''description'' (JString []) = Inl msg
                               \<or> (\<exists>v. dict_get data ''description'' (JString []) = Inr v \<and>
                                    save_description e job v db = Inl msg)))))))"
  then have "generated_description e req = Inl msg
      \<or> (\<exists>v. generated_description e req = Inr v \<and> save_description e job v db = Inl msg)"
    by (auto simp: generated_description_def)
  then show "generate_job_description e k request db
      = (Inl (HTTPException 500 (''Failed to generate job description: '' @ msg)), db, [req])"
    by (rule generate_failure [OF assms])
next
  show "read_job_posting k db = Inr job"
    by (simp add: read_job_posting_def assms(1))
qed

theorem generate_failure_is_500_witness:
  "query_job demo_db 10 = Some driver \<and> job_company demo_db driver = Some acme
   \<and> create_completion (failing ''Connection error.'') (completion_request driver_prompt)
       = Inl ''Connection error.''
   \<and> generate_job_description (failing ''Connection error.'') 10 tools_request demo_db
       = (Inl (HTTPException 500 ''Failed to generate job description: Connection error.''),
          demo_db, [completion_request driver_prompt])
   \<and> read_job_posting 10 demo_db = Inr driver"
proof -
  let ?e = "failing ''Connection error.''"
  have h1: "query_job demo_db 10 = Some driver"
    by (simp add: query_job_def demo_db_def driver_def)
  have h2: "job_company demo_db driver = Some acme"
    by (simp add: job_company_def query_company_def demo_db_def driver_def acme_def)
  have h3: "completion_request driver_prompt
      = completion_request (prompt driver acme (join '', '' (required_tools tools_request)))"
    by (simp only: driver_prompt_eq)
  have h4: "create_completion ?e (completion_request driver_prompt) = Inl ''Connection error.''"
    by (simp add: failing_def)
  from generate_failure_is_500 [OF h1 h2 h3, of ?e] h4
  have "generate_job_description ?e 10 tools_request demo_db
      = (Inl (HTTPException 500 (''Failed to generate job description: '' @ ''Connection error.'')),
         demo_db, [completion_request driver_prompt])
      \<and> read_job_posting 10 demo_db = Inr driver"
    by blast
  with h1 h2 h4 show ?thesis by simp
qed

end
